theory Spec2Isabelle
  imports Complex_Main
begin

section \<open>GLSL values and built-in functions\<close>

text \<open>
  The fragment shader of \<^verbatim>\<open>shader.js\<close> computes on GLSL \<^verbatim>\<open>float\<close>, \<^verbatim>\<open>vec2\<close> and
  \<^verbatim>\<open>vec3\<close> values. Floats are modelled by the real numbers (exact arithmetic, no
  rounding, no overflow), vectors by tuples with componentwise operations.
\<close>

type_synonym vec2 = "real \<times> real"
type_synonym vec3 = "real \<times> real \<times> real"

text \<open>\<^verbatim>\<open>texture2D(tex, uv).rgb\<close>: the background sampler.\<close>

type_synonym sampler = "vec2 \<Rightarrow> vec3"

fun add2 :: "vec2 \<Rightarrow> vec2 \<Rightarrow> vec2" where
  "add2 (a, b) (c, d) = (a + c, b + d)"

fun sub2 :: "vec2 \<Rightarrow> vec2 \<Rightarrow> vec2" where
  "sub2 (a, b) (c, d) = (a - c, b - d)"

fun mul2 :: "vec2 \<Rightarrow> vec2 \<Rightarrow> vec2" where
  "mul2 (a, b) (c, d) = (a * c, b * d)"

fun scale2 :: "vec2 \<Rightarrow> real \<Rightarrow> vec2" where
  "scale2 (a, b) k = (a * k, b * k)"

fun add3 :: "vec3 \<Rightarrow> vec3 \<Rightarrow> vec3" where
  "add3 (a, b, c) (d, e, f) = (a + d, b + e, c + f)"

fun mul3 :: "vec3 \<Rightarrow> vec3 \<Rightarrow> vec3" where
  "mul3 (a, b, c) (d, e, f) = (a * d, b * e, c * f)"

fun scale3 :: "vec3 \<Rightarrow> real \<Rightarrow> vec3" where
  "scale3 (a, b, c) k = (a * k, b * k, c * k)"

text \<open>\<^verbatim>\<open>vec3 += float\<close> adds the scalar to every component.\<close>

fun adds3 :: "vec3 \<Rightarrow> real \<Rightarrow> vec3" where
  "adds3 (a, b, c) k = (a + k, b + k, c + k)"

fun red :: "vec3 \<Rightarrow> real" where
  "red (r, g, b) = r"

fun green :: "vec3 \<Rightarrow> real" where
  "green (r, g, b) = g"

fun blue :: "vec3 \<Rightarrow> real" where
  "blue (r, g, b) = b"

fun xy :: "vec3 \<Rightarrow> vec2" where
  "xy (a, b, c) = (a, b)"

fun zc :: "vec3 \<Rightarrow> real" where
  "zc (a, b, c) = c"

fun dot3 :: "vec3 \<Rightarrow> vec3 \<Rightarrow> real" where
  "dot3 (a, b, c) (d, e, f) = a * d + b * e + c * f"

fun length2 :: "vec2 \<Rightarrow> real" where
  "length2 (a, b) = sqrt (a * a + b * b)"

fun length3 :: "vec3 \<Rightarrow> real" where
  "length3 (a, b, c) = sqrt (a * a + b * b + c * c)"

text \<open>\<^verbatim>\<open>normalize(v) = v / length(v)\<close>.\<close>

fun normalize3 :: "vec3 \<Rightarrow> vec3" where
  "normalize3 (a, b, c) =
     (a / length3 (a, b, c), b / length3 (a, b, c), c / length3 (a, b, c))"

text \<open>\<^verbatim>\<open>clamp(x, lo, hi) = min(max(x, lo), hi)\<close>, per component on vectors.\<close>

definition clampf :: "real \<Rightarrow> real \<Rightarrow> real \<Rightarrow> real" where
  "clampf x lo hi = min (max x lo) hi"

fun clamp2 :: "vec2 \<Rightarrow> vec2 \<Rightarrow> vec2 \<Rightarrow> vec2" where
  "clamp2 (a, b) (la, lb) (ha, hb) = (clampf a la ha, clampf b lb hb)"

text \<open>\<^verbatim>\<open>smoothstep(e0, e1, x)\<close>: Hermite interpolation of the clamped ratio.\<close>

definition smoothstep :: "real \<Rightarrow> real \<Rightarrow> real \<Rightarrow> real" where
  "smoothstep e0 e1 x =
     (let t = clampf ((x - e0) / (e1 - e0)) 0 1 in t * t * (3 - 2 * t))"

text \<open>\<^verbatim>\<open>mix(x, y, a) = x * (1 - a) + y * a\<close>, with a scalar weight.\<close>

definition mixf :: "real \<Rightarrow> real \<Rightarrow> real \<Rightarrow> real" where
  "mixf x y a = x * (1 - a) + y * a"

fun mix3 :: "vec3 \<Rightarrow> vec3 \<Rightarrow> real \<Rightarrow> vec3" where
  "mix3 (a, b, c) (d, e, f) k = (mixf a d k, mixf b e k, mixf c f k)"

text \<open>
  \<^verbatim>\<open>refract(I, N, eta)\<close>: with \<^verbatim>\<open>k = 1 - eta * eta * (1 - dot(N, I) * dot(N, I))\<close> the
  result is the zero vector when \<^verbatim>\<open>k < 0\<close> (total internal reflection) and
  \<^verbatim>\<open>eta * I - (eta * dot(N, I) + sqrt(k)) * N\<close> otherwise.
\<close>

definition refract :: "vec3 \<Rightarrow> vec3 \<Rightarrow> real \<Rightarrow> vec3" where
  "refract I N eta =
     (let k = 1 - eta * eta * (1 - dot3 N I * dot3 N I)
      in if k < 0 then (0, 0, 0)
         else add3 (scale3 I eta) (scale3 N (- (eta * dot3 N I + sqrt k))))"

section \<open>The fragment shader\<close>

record uniforms =
  width :: real
  height :: real
  u_ior :: real
  u_ca :: real
  u_dist :: real
  u_cr :: real
  u_fres :: real
  u_tint_r :: real
  u_tint_g :: real
  u_tint_b :: real
  u_tint_a :: real
  u_blur :: real

definition LIGHT_DIR :: vec3 where
  "LIGHT_DIR = (- 0.32444, 0.48666, 0.81110)"

definition HALF_VEC :: vec3 where
  "HALF_VEC = (- 0.17045, 0.25568, 0.95156)"

subsection \<open>\<^verbatim>\<open>sdf\<close>: signed distance to the rounded rectangle\<close>

fun sdf :: "vec2 \<Rightarrow> vec2 \<Rightarrow> real \<Rightarrow> real" where
  "sdf (px, py) (hx, hy) r0 =
     (let r = min r0 (min hx hy);
          dx = \<bar>px\<bar> - hx + r;
          dy = \<bar>py\<bar> - hy + r
      in min (max dx dy) 0 + length2 (max dx 0, max dy 0) - r)"

subsection \<open>\<^verbatim>\<open>tap\<close>: golden-angle spiral blur\<close>

definition tap_N :: nat where
  "tap_N = 12"

definition INV_N :: real where
  "INV_N = 1 / 12"

definition GA :: real where
  "GA = 2.39996323"

text \<open>The coordinate sampled by iteration \<open>i\<close> of the loop (\<open>uv\<close> is already clamped).\<close>

definition tap_coord :: "vec2 \<Rightarrow> vec2 \<Rightarrow> real \<Rightarrow> nat \<Rightarrow> vec2" where
  "tap_coord uv invRes blur i =
     (let fi = real i;
          r = sqrt ((fi + 0.5) * INV_N) * blur;
          a = fi * GA
      in clamp2 (add2 uv (mul2 (scale2 (cos a, sin a) r) invRes))
           invRes (sub2 (1, 1) invRes))"

text \<open>The \<^verbatim>\<open>for (int i = 0; i < N; i++)\<close> loop, from counter \<open>i\<close> and accumulator \<open>s\<close>.\<close>

function tap_loop :: "sampler \<Rightarrow> vec2 \<Rightarrow> vec2 \<Rightarrow> real \<Rightarrow> nat \<Rightarrow> vec3 \<Rightarrow> vec3" where
  "tap_loop tex uv invRes blur i s =
     (if i < tap_N
      then tap_loop tex uv invRes blur (i + 1) (add3 s (tex (tap_coord uv invRes blur i)))
      else s)"
  by pat_completeness auto
termination
  by (relation "measure (\<lambda>(tex, uv, invRes, blur, i, s). tap_N - i)") auto

declare tap_loop.simps [simp del]

definition tap :: "sampler \<Rightarrow> vec2 \<Rightarrow> vec2 \<Rightarrow> real \<Rightarrow> vec3" where
  "tap tex uv0 invRes blur =
     (let uv = clamp2 uv0 invRes (sub2 (1, 1) invRes)
      in if blur < 0.5 then tex uv
         else scale3 (tap_loop tex uv invRes blur 0 (0, 0, 0)) INV_N)"

subsection \<open>\<^verbatim>\<open>main\<close>: geometry of the pixel\<close>

definition res :: "uniforms \<Rightarrow> vec2" where
  "res u = (width u, height u)"

definition invRes :: "uniforms \<Rightarrow> vec2" where
  "invRes u = (1 / width u, 1 / height u)"

text \<open>Pixel coordinates centred on the widget: \<^verbatim>\<open>p = v_uv * res - res * 0.5\<close>.\<close>

definition pix :: "uniforms \<Rightarrow> vec2 \<Rightarrow> vec2" where
  "pix u v_uv = sub2 (mul2 v_uv (res u)) (scale2 (res u) 0.5)"

definition hs :: "uniforms \<Rightarrow> vec2" where
  "hs u = scale2 (res u) 0.5"

definition cr :: "uniforms \<Rightarrow> real" where
  "cr u = min (u_cr u) (min (fst (hs u)) (snd (hs u)))"

definition d_sdf :: "uniforms \<Rightarrow> vec2 \<Rightarrow> real" where
  "d_sdf u v_uv = sdf (pix u v_uv) (hs u) (cr u)"

definition edge :: "uniforms \<Rightarrow> vec2 \<Rightarrow> real" where
  "edge u v_uv = 1 - smoothstep (- 1.5) 0.5 (d_sdf u v_uv)"

subsection \<open>\<^verbatim>\<open>main\<close>: the convex dome and its normal\<close>

record surface =
  s_t :: real
  s_ht :: real
  s_hpD :: real
  s_hGrad :: vec2
  s_len :: real
  s_N :: vec3

text \<open>
  Lines 73 to 97 of the shader, as a function of the local position \<open>p\<close>, the half
  extents \<open>hs\<close> and the inverse resolution. \<open>s_len\<close> is the length by which
  \<^verbatim>\<open>normalize\<close> divides and \<open>s_hpD\<close> the clamped denominator of \<^verbatim>\<open>hp\<close>.
\<close>

definition dome :: "vec2 \<Rightarrow> vec2 \<Rightarrow> vec2 \<Rightarrow> surface" where
  "dome p h invRes0 =
     (let invHs2x = 4 * fst invRes0 * fst invRes0;
          invHs2y = 4 * snd invRes0 * snd invRes0;
          qx = min (\<bar>fst p\<bar> / fst h) 1;
          qy = min (\<bar>snd p\<bar> / snd h) 1;
          ax = max (1 - qx * qx) 0;
          ay = max (1 - qy * qy) 0;
          t = ax * ay;
          om = 1 - t;
          om2 = om * om;
          om4 = om2 * om2;
          base = max (1 - om4) 0.000001;
          sqrtBase = sqrt base;
          ht = sqrt sqrtBase;
          hpD = max (sqrtBase * ht) 0.08;
          hp = om2 * om / hpD;
          hGrad = scale2 (- 2 * fst p * invHs2x * ay, - 2 * snd p * invHs2y * ax) hp;
          v = (- fst hGrad * 50, - snd hGrad * 50, 1)
      in \<lparr> s_t = t, s_ht = ht, s_hpD = hpD, s_hGrad = hGrad,
           s_len = length3 v, s_N = normalize3 v \<rparr>)"

definition surf :: "uniforms \<Rightarrow> vec2 \<Rightarrow> surface" where
  "surf u v_uv = dome (pix u v_uv) (hs u) (invRes u)"

subsection \<open>\<^verbatim>\<open>main\<close>: Snell refraction and background sampling\<close>

definition Iray :: vec3 where
  "Iray = (0, 0, - 1)"

definition scaleInv :: "uniforms \<Rightarrow> vec2" where
  "scaleInv u = scale2 (invRes u) (length2 (res u) * 0.1 * u_dist u)"

text \<open>The green ray with its fallback (lines 103 and 104).\<close>

definition rayG :: "uniforms \<Rightarrow> vec3 \<Rightarrow> vec3" where
  "rayG u N =
     (let rG = refract Iray N (1 / u_ior u)
      in if dot3 rG rG < 0.001 then Iray else rG)"

definition uvG :: "uniforms \<Rightarrow> vec2 \<Rightarrow> vec3 \<Rightarrow> vec2" where
  "uvG u v_uv N = add2 v_uv (mul2 (xy (rayG u N)) (scaleInv u))"

definition rayR :: "uniforms \<Rightarrow> vec3 \<Rightarrow> vec3" where
  "rayR u N =
     (let rR = refract Iray N (1 / (u_ior u + u_ca u * 12))
      in if dot3 rR rR < 0.001 then rayG u N else rR)"

definition rayB :: "uniforms \<Rightarrow> vec3 \<Rightarrow> vec3" where
  "rayB u N =
     (let rB = refract Iray N (1 / max (u_ior u - u_ca u * 12) 1.001)
      in if dot3 rB rB < 0.001 then rayG u N else rB)"

definition sample_col :: "uniforms \<Rightarrow> sampler \<Rightarrow> vec2 \<Rightarrow> vec3 \<Rightarrow> vec3" where
  "sample_col u tex v_uv N =
     (if u_ca u > 0.001
      then (red (tap tex (add2 v_uv (mul2 (xy (rayR u N)) (scaleInv u))) (invRes u) (u_blur u)),
            green (tap tex (uvG u v_uv N) (invRes u) (u_blur u)),
            blue (tap tex (add2 v_uv (mul2 (xy (rayB u N)) (scaleInv u))) (invRes u) (u_blur u)))
      else tap tex (uvG u v_uv N) (invRes u) (u_blur u))"

subsection \<open>\<^verbatim>\<open>main\<close>: Fresnel, specular, tint and composite\<close>

definition fresnel :: "uniforms \<Rightarrow> vec3 \<Rightarrow> real" where
  "fresnel u N =
     (let nz = max (zc N) 0;
          fBase = 1 - nz
      in fBase * fBase * fBase * u_fres u)"

definition specular :: "vec3 \<Rightarrow> real" where
  "specular N =
     (let sb = max (dot3 N HALF_VEC) 0;
          s2 = sb * sb;
          s4 = s2 * s2;
          s8 = s4 * s4;
          s16 = s8 * s8;
          s32 = s16 * s16;
          s64 = s32 * s32
      in s64 * s16 * 0.45)"

definition main :: "uniforms \<Rightarrow> sampler \<Rightarrow> vec2 \<Rightarrow> vec3" where
  "main u tex v_uv =
     (let sp = surf u v_uv;
          N = s_N sp;
          col = sample_col u tex v_uv N;
          col = add3 col (scale3 (0.85, 0.9, 1.0) (fresnel u N));
          col = add3 col (scale3 (1.0, 0.98, 0.95) (specular N));
          col = mix3 col (mul3 col (u_tint_r u, u_tint_g u, u_tint_b u)) (u_tint_a u);
          col = adds3 col ((1 - s_ht sp) * 0.012);
          bg = tex v_uv
      in mix3 bg col (edge u v_uv))"

section \<open>The effect object that uploads the uniforms\<close>

text \<open>
  \<^verbatim>\<open>effect.js\<close>: the fields of a \<^verbatim>\<open>LiquidGlassEffect\<close> (\<^verbatim>\<open>this._ior\<close> is
  \<open>this_ior\<close>, and so on). \<^verbatim>\<open>_tint\<close> is an array of four numbers: its three
  writers (the default, \<^verbatim>\<open>parseColor\<close> and \<^verbatim>\<open>_parseTint\<close>) all build
  \<^verbatim>\<open>[r, g, b, a]\<close>.
\<close>

record effect =
  this_ior :: real
  this_ca :: real
  this_dist :: real
  this_cr :: real
  this_fres :: real
  this_blur :: real
  this_tint :: "real \<times> real \<times> real \<times> real"
  this_dirty :: bool
  this_lastW :: real
  this_lastH :: real

text \<open>The actor of the effect: \<^verbatim>\<open>get_actor()\<close> is null or has a width and a height.\<close>

type_synonym actor = "(real \<times> real) option"

text \<open>A call \<^verbatim>\<open>set_uniform_value(name, value)\<close>.\<close>

type_synonym upload = "string \<times> real"

definition EPS :: real where
  "EPS = 0.000001"

text \<open>Lines 66 to 73: the size uniforms, only when the dimensions changed.\<close>

definition upload_size :: "effect \<Rightarrow> real \<Rightarrow> real \<Rightarrow> effect \<times> upload list" where
  "upload_size e w h =
     (if w \<noteq> this_lastW e \<or> h \<noteq> this_lastH e
      then (e\<lparr>this_lastW := w, this_lastH := h\<rparr>,
            [(''width'', w - EPS), (''height'', h - EPS)])
      else (e, []))"

text \<open>Lines 76 to 88: the parameter uniforms, only when a setting changed.\<close>

definition upload_params :: "effect \<Rightarrow> effect \<times> upload list" where
  "upload_params e =
     (if this_dirty e
      then (case this_tint e of (t0, t1, t2, t3) \<Rightarrow>
             (e\<lparr>this_dirty := False\<rparr>,
              [(''u_ior'', this_ior e - EPS),
               (''u_ca'', this_ca e - EPS),
               (''u_dist'', this_dist e - EPS),
               (''u_cr'', this_cr e - EPS),
               (''u_fres'', this_fres e - EPS),
               (''u_blur'', this_blur e - EPS),
               (''u_tint_r'', t0 - EPS),
               (''u_tint_g'', t1 - EPS),
               (''u_tint_b'', t2 - EPS),
               (''u_tint_a'', t3 - EPS)]))
      else (e, []))"

text \<open>
  \<^verbatim>\<open>vfunc_paint_target\<close>: the new state of the effect, the calls of
  \<^verbatim>\<open>set_uniform_value\<close> in order, and whether the parent's paint was reached.
\<close>

definition vfunc_paint_target :: "effect \<Rightarrow> actor \<Rightarrow> effect \<times> upload list \<times> bool" where
  "vfunc_paint_target e act =
     (case act of
        None \<Rightarrow> (e, [], False)
      | Some (w, h) \<Rightarrow>
          if w \<le> 0 \<or> h \<le> 0 then (e, [], False)
          else (let (e1, ups1) = upload_size e w h;
                    (e2, ups2) = upload_params e1
                in (e2, ups1 @ ups2, True)))"

definition uploads :: "effect \<Rightarrow> actor \<Rightarrow> upload list" where
  "uploads e act = fst (snd (vfunc_paint_target e act))"

text \<open>
  The JavaScript value from which each uniform is computed: the actor's size for
  \<^verbatim>\<open>width\<close> and \<^verbatim>\<open>height\<close>, the field of the effect for the others.
\<close>

definition stored :: "effect \<Rightarrow> actor \<Rightarrow> string \<Rightarrow> real option" where
  "stored e act n =
     (if n = ''width'' then map_option fst act
      else if n = ''height'' then map_option snd act
      else if n = ''u_ior'' then Some (this_ior e)
      else if n = ''u_ca'' then Some (this_ca e)
      else if n = ''u_dist'' then Some (this_dist e)
      else if n = ''u_cr'' then Some (this_cr e)
      else if n = ''u_fres'' then Some (this_fres e)
      else if n = ''u_blur'' then Some (this_blur e)
      else if n = ''u_tint_r'' then Some (fst (this_tint e))
      else if n = ''u_tint_g'' then Some (fst (snd (this_tint e)))
      else if n = ''u_tint_b'' then Some (fst (snd (snd (this_tint e))))
      else if n = ''u_tint_a'' then Some (snd (snd (snd (this_tint e))))
      else None)"

section \<open>Reference definitions taken from the specification\<close>

text \<open>
  The ranges of \<^verbatim>\<open>PanelRect\<close> and \<^verbatim>\<open>OpticalParams\<close> in section 3 of the
  specification, read on the uniforms of the shader.
\<close>

definition valid_params :: "uniforms \<Rightarrow> bool" where
  "valid_params u \<longleftrightarrow>
     0 < width u \<and> 0 < height u \<and>
     0 \<le> u_cr u \<and> u_cr u \<le> min (width u) (height u) / 2 \<and>
     1 \<le> u_ior u \<and> u_ior u \<le> 2 \<and>
     0 \<le> u_ca u \<and> u_ca u \<le> 0.05 \<and>
     0 \<le> u_dist u \<and> u_dist u \<le> 3 \<and>
     0 \<le> u_fres u \<and> u_fres u \<le> 1 \<and>
     0 \<le> u_blur u \<and> u_blur u \<le> 10 \<and>
     0 \<le> u_tint_r u \<and> u_tint_r u \<le> 1 \<and>
     0 \<le> u_tint_g u \<and> u_tint_g u \<le> 1 \<and>
     0 \<le> u_tint_b u \<and> u_tint_b u \<le> 1 \<and>
     0 \<le> u_tint_a u \<and> u_tint_a u \<le> 1"

text \<open>
  The spiral of section 4.2, step 5, in the specification's words: tap \<open>i\<close> has radius
  \<open>sqrt ((i + 0.5) / 12) * blur\<close> and angle \<open>i * 2.39996323\<close>, its offset is
  \<open>(cos a, sin a) * r * invRes\<close>, and the base coordinate and every sample coordinate
  are clamped per axis to \<open>[invRes, 1 - invRes]\<close>.
\<close>

definition spiral_coord :: "vec2 \<Rightarrow> vec2 \<Rightarrow> real \<Rightarrow> nat \<Rightarrow> vec2" where
  "spiral_coord uv ir blur i =
     (let r = sqrt ((real i + 0.5) / 12) * blur;
          a = real i * 2.39996323;
          lo = ir;
          hi = (1 - fst ir, 1 - snd ir);
          base = (min (max (fst uv) (fst lo)) (fst hi), min (max (snd uv) (snd lo)) (snd hi));
          cx = fst base + cos a * r * fst ir;
          cy = snd base + sin a * r * snd ir
      in (min (max cx (fst lo)) (fst hi), min (max cy (snd lo)) (snd hi)))"

definition spiral_average :: "sampler \<Rightarrow> vec2 \<Rightarrow> vec2 \<Rightarrow> real \<Rightarrow> vec3" where
  "spiral_average tex uv ir blur =
     ((\<Sum>i = 0..<12. red (tex (spiral_coord uv ir blur i))) / 12,
      (\<Sum>i = 0..<12. green (tex (spiral_coord uv ir blur i))) / 12,
      (\<Sum>i = 0..<12. blue (tex (spiral_coord uv ir blur i))) / 12)"

text \<open>The specular lobe of section 4.2, step 7: the 80th power scaled by 0.45.\<close>

definition specular_ref :: "vec3 \<Rightarrow> real" where
  "specular_ref N = (max (dot3 N HALF_VEC) 0) ^ 80 * 0.45"

section \<open>Concrete inputs\<close>

text \<open>
  The panel of the specification's scenarios: half extents \<open>(400, 200)\<close>, corner radius
  12, \<open>ior = 1.45\<close>, no chromatic aberration, no blur.
\<close>

definition u_flat :: uniforms where
  "u_flat = \<lparr> width = 800, height = 400, u_ior = 1.45, u_ca = 0, u_dist = 0.8, u_cr = 12,
      u_fres = 0.25, u_tint_r = 1, u_tint_g = 1, u_tint_b = 1, u_tint_a = 0.8, u_blur = 0 \<rparr>"

text \<open>A uniform grey background, and one whose colour is the sampled coordinate.\<close>

definition tex_grey :: sampler where
  "tex_grey c = (1 / 2, 1 / 2, 1 / 2)"

definition tex_ramp :: sampler where
  "tex_ramp c = (fst c, snd c, fst c)"

text \<open>
  An effect on which nothing was uploaded yet, configured with \<open>ior = 1.0\<close> and a tint
  whose red channel is 0, on a panel of 1920 by 32 pixels.
\<close>

definition e_one :: effect where
  "e_one = \<lparr> this_ior = 1, this_ca = 0.008, this_dist = 0.8, this_cr = 12, this_fres = 0.25,
      this_blur = 2, this_tint = (0, 1, 1, 0.8), this_dirty = True,
      this_lastW = - 1, this_lastH = - 1 \<rparr>"



definition u_tiny :: uniforms where
  "u_tiny = \<lparr> width = 2, height = 2, u_ior = 0.999999, u_ca = 0, u_dist = 0.8, u_cr = 0,
      u_fres = 0.25, u_tint_r = 1, u_tint_g = 1, u_tint_b = 1, u_tint_a = 0.8, u_blur = 0 \<rparr>"

section \<open>Properties of the built-in functions\<close>

lemma mix3_zero: "mix3 bg col 0 = bg"
  by (cases bg; cases col) (simp add: mixf_def)

lemma clampf_id: "lo \<le> x \<Longrightarrow> x \<le> hi \<Longrightarrow> clampf x lo hi = x"
  by (simp add: clampf_def)

lemma u_flat_valid: "valid_params u_flat"
  by (simp add: valid_params_def u_flat_def)

section \<open>Edge containment\<close>

lemma edge_outside:
  assumes "1 < d_sdf u v_uv"
  shows "edge u v_uv = 0"
proof -
  have "1 \<le> (d_sdf u v_uv - (- 1.5)) / (0.5 - (- 1.5))"
    using assms by simp
  then have "clampf ((d_sdf u v_uv - (- 1.5)) / (0.5 - (- 1.5))) 0 1 = 1"
    unfolding clampf_def by (simp only: min_def max_def) auto
  then show ?thesis
    unfolding edge_def smoothstep_def Let_def by simp
qed

lemma d_sdf_outside_flat: "d_sdf u_flat (17 / 16, 1 / 2) = 50"
  by (simp add: d_sdf_def pix_def hs_def cr_def res_def u_flat_def Let_def)

text \<open>
  C1. For parameters in the ranges of section 3 and a pixel whose signed distance to the
  rounded rectangle is above 1, the edge mask is 0 and \<^verbatim>\<open>main\<close> returns the background
  sample at the pixel's own coordinate, whatever the refraction, blur, Fresnel, specular
  and tint values are.
\<close>

theorem edge_containment:
  assumes "valid_params u" and "1 < d_sdf u v_uv"
  shows "edge u v_uv = 0 \<and> main u tex v_uv = tex v_uv"
proof
  show "edge u v_uv = 0"
    by (rule edge_outside [OF assms(2)])
  show "main u tex v_uv = tex v_uv"
    unfolding main_def Let_def edge_outside [OF assms(2)] by (rule mix3_zero)
qed

text \<open>The scenario "outside silhouette": the probe at \<open>p = (450, 0)\<close>, where \<open>d = 50\<close>.\<close>

theorem edge_containment_witness:
  "valid_params u_flat \<and> 1 < d_sdf u_flat (17 / 16, 1 / 2) \<and>
   edge u_flat (17 / 16, 1 / 2) = 0 \<and>
   main u_flat tex_grey (17 / 16, 1 / 2) = (1 / 2, 1 / 2, 1 / 2)"
proof -
  have h: "1 < d_sdf u_flat (17 / 16, 1 / 2)"
    by (simp add: d_sdf_outside_flat)
  show ?thesis
    using u_flat_valid h edge_containment [OF u_flat_valid h, of tex_grey]
    by (simp add: tex_grey_def)
qed

section \<open>The normal at the centre\<close>

text \<open>
  C2. At the centre \<open>p = (0, 0)\<close> of the rectangle, for positive half extents, the
  estimator gives \<open>t = 1\<close>, a zero height gradient and the normal \<open>(0, 0, 1)\<close>.
\<close>

theorem normal_at_center:
  assumes "0 < hx" and "0 < hy"
  shows "s_t (dome (0, 0) (hx, hy) ir) = 1 \<and>
         s_hGrad (dome (0, 0) (hx, hy) ir) = (0, 0) \<and>
         s_N (dome (0, 0) (hx, hy) ir) = (0, 0, 1)"
  using assms by (simp add: dome_def Let_def)

theorem normal_at_center_witness:
  "(0::real) < 400 \<and> (0::real) < 200 \<and>
   s_t (dome (0, 0) (400, 200) (1 / 800, 1 / 400)) = 1 \<and>
   s_hGrad (dome (0, 0) (400, 200) (1 / 800, 1 / 400)) = (0, 0) \<and>
   s_N (dome (0, 0) (400, 200) (1 / 800, 1 / 400)) = (0, 0, 1)"
proof -
  have hx: "(0::real) < 400" and hy: "(0::real) < 200"
    by simp_all
  show ?thesis
    using hx hy normal_at_center [OF hx hy, of "(1 / 800, 1 / 400)"] by simp
qed

section \<open>Blur bypass\<close>

text \<open>
  C5, as the code has it. With \<open>blur < 0.5\<close>, \<^verbatim>\<open>tap\<close> is one direct background sample,
  taken at \<open>uv\<close> clamped per axis to \<open>[invRes, 1 - invRes]\<close>; it is the sample at \<open>uv\<close>
  itself when \<open>uv\<close> already lies in that range.
\<close>

theorem blur_bypass_clamped:
  assumes "blur < 0.5"
  shows "tap tex uv ir blur = tex (clamp2 uv ir (sub2 (1, 1) ir)) \<and>
         (fst ir \<le> fst uv \<and> fst uv \<le> 1 - fst ir \<and> snd ir \<le> snd uv \<and> snd uv \<le> 1 - snd ir
            \<longrightarrow> tap tex uv ir blur = tex uv)"
  using assms by (cases uv; cases ir) (simp add: tap_def Let_def clampf_id)

theorem blur_bypass_clamped_witness:
  "(0::real) < 0.5 \<and>
   tap tex_ramp (0, 0) (1 / 10, 1 / 10) 0 = (1 / 10, 1 / 10, 1 / 10) \<and>
   tap tex_ramp (1 / 2, 1 / 4) (1 / 10, 1 / 10) 0 = (1 / 2, 1 / 4, 1 / 2)"
proof -
  have h: "(0::real) < 0.5"
    by simp
  show ?thesis
    using blur_bypass_clamped [OF h, of tex_ramp "(0, 0)" "(1 / 10, 1 / 10)"]
      blur_bypass_clamped [OF h, of tex_ramp "(1 / 2, 1 / 4)" "(1 / 10, 1 / 10)"]
    by (simp add: tex_ramp_def clampf_def)
qed

text \<open>
  C5 as stated fails outside the clamping range: at \<open>uv = (0, 0)\<close> with
  \<open>invRes = (0.1, 0.1)\<close> and no blur, \<^verbatim>\<open>tap\<close> samples \<open>(0.1, 0.1)\<close>, not \<open>uv\<close>.
\<close>

theorem blur_bypass_unclamped_counterexample:
  "(0::real) < 0.5 \<and> tap tex_ramp (0, 0) (1 / 10, 1 / 10) 0 \<noteq> tex_ramp (0, 0)"
  by (simp add: tap_def Let_def clampf_def tex_ramp_def)

section \<open>Chromatic aberration bypass\<close>

text \<open>
  C7. With \<open>ca \<le> 0.001\<close> the colour is the single \<^verbatim>\<open>tap\<close> at \<open>uvG\<close>: the red, green and
  blue channels are all read at the coordinate derived from the green ray.
\<close>

theorem ca_bypass:
  assumes "u_ca u \<le> 0.001"
  shows "sample_col u tex v_uv N = tap tex (uvG u v_uv N) (invRes u) (u_blur u)"
  using assms by (simp add: sample_col_def)

theorem ca_bypass_witness:
  "u_ca u_flat \<le> 0.001 \<and>
   sample_col u_flat tex_ramp (1 / 2, 1 / 2) (0, 0, 1) =
     tap tex_ramp (uvG u_flat (1 / 2, 1 / 2) (0, 0, 1)) (invRes u_flat) (u_blur u_flat)"
proof -
  have h: "u_ca u_flat \<le> 0.001"
    by (simp add: u_flat_def)
  show ?thesis
    using h ca_bypass [OF h, of tex_ramp "(1 / 2, 1 / 2)" "(0, 0, 1)"] by simp
qed

section \<open>The specular chain\<close>

lemma chain80:
  fixes x :: real
  shows "x ^ 80 = ((x * x) * (x * x) * ((x * x) * (x * x)) * ((x * x) * (x * x) * ((x * x) * (x * x))) *
      ((x * x) * (x * x) * ((x * x) * (x * x)) * ((x * x) * (x * x) * ((x * x) * (x * x)))) *
     ((x * x) * (x * x) * ((x * x) * (x * x)) * ((x * x) * (x * x) * ((x * x) * (x * x))) *
      ((x * x) * (x * x) * ((x * x) * (x * x)) * ((x * x) * (x * x) * ((x * x) * (x * x)))))) *
     ((x * x) * (x * x) * ((x * x) * (x * x)) * ((x * x) * (x * x) * ((x * x) * (x * x))))"
proof -
  have s2: "x * x = x ^ 2"
    by (simp add: power2_eq_square)
  have s4: "x ^ 2 * x ^ 2 = x ^ 4"
    by (simp add: power_add [symmetric])
  have s8: "x ^ 4 * x ^ 4 = x ^ 8"
    by (simp add: power_add [symmetric])
  have s16: "x ^ 8 * x ^ 8 = x ^ 16"
    by (simp add: power_add [symmetric])
  have s32: "x ^ 16 * x ^ 16 = x ^ 32"
    by (simp add: power_add [symmetric])
  have s64: "x ^ 32 * x ^ 32 = x ^ 64"
    by (simp add: power_add [symmetric])
  have s80: "x ^ 64 * x ^ 16 = x ^ 80"
    by (simp add: power_add [symmetric])
  show ?thesis
    unfolding s2 s4 s8 s16 s32 s64 s80 ..
qed

text \<open>
  C9. The chain of six multiplications \<open>s2, s4, ..., s64\<close> followed by
  \<open>s64 * s16 * 0.45\<close> is the 80th power of \<open>max (dot N H) 0\<close> scaled by 0.45.
\<close>

theorem specular_chain_pow80: "specular N = specular_ref N"
  unfolding specular_def specular_ref_def Let_def chain80 ..

section \<open>The spiral blur\<close>

lemma tap_coord_spiral: "tap_coord (clamp2 uv ir (sub2 (1, 1) ir)) ir blur i = spiral_coord uv ir blur i"
  by (cases uv; cases ir) (simp add: tap_coord_def spiral_coord_def Let_def clampf_def INV_N_def GA_def)

lemma tap_loop_sum:
  "i \<le> tap_N \<Longrightarrow> tap_loop tex uv ir blur i s =
     (red s + (\<Sum>k = i..<tap_N. red (tex (tap_coord uv ir blur k))),
      green s + (\<Sum>k = i..<tap_N. green (tex (tap_coord uv ir blur k))),
      blue s + (\<Sum>k = i..<tap_N. blue (tex (tap_coord uv ir blur k))))"
proof (induction tex uv ir blur i s rule: tap_loop.induct)
  case (1 tex uv ir blur i s)
  show ?case
  proof (cases "i < tap_N")
    case True
    obtain a b c where s: "s = (a, b, c)" by (cases s) auto
    obtain d e f where t: "tex (tap_coord uv ir blur i) = (d, e, f)" by (cases "tex (tap_coord uv ir blur i)") auto
    from True have le: "i + 1 \<le> tap_N" by simp
    have "tap_loop tex uv ir blur i s = tap_loop tex uv ir blur (i + 1) (add3 s (tex (tap_coord uv ir blur i)))"
      using True by (subst tap_loop.simps) simp
    also note "1.IH" [OF True le]
    finally show ?thesis
      using True by (simp add: s t sum.atLeast_Suc_lessThan add.assoc)
  next
    case False
    with "1.prems" have "i = tap_N" by simp
    then show ?thesis by (subst tap_loop.simps) (cases s, simp)
  qed
qed

text \<open>
  C6. With \<open>blur \<ge> 0.5\<close>, \<^verbatim>\<open>tap\<close> is the average of the 12 background samples of
  the golden-angle spiral: tap \<open>i\<close> has radius \<open>sqrt ((i + 0.5) / 12) * blur\<close> and
  angle \<open>i * 2.39996323\<close>, and the base coordinate and every sample coordinate are
  clamped per axis to \<open>[invRes, 1 - invRes]\<close>.
\<close>

theorem tap_spiral_average:
  assumes "0.5 \<le> blur"
  shows "tap tex uv ir blur = spiral_average tex uv ir blur"
proof -
  have nb: "\<not> blur < 0.5" using assms by simp
  have z: "(0::nat) \<le> tap_N" by simp
  have "tap tex uv ir blur = scale3 (tap_loop tex (clamp2 uv ir (sub2 (1, 1) ir)) ir blur 0 (0, 0, 0)) INV_N"
    unfolding tap_def Let_def using nb by simp
  also have "\<dots> = spiral_average tex uv ir blur"
    unfolding tap_loop_sum [OF z] tap_coord_spiral spiral_average_def
    by (simp add: INV_N_def tap_N_def)
  finally show ?thesis .
qed

theorem tap_spiral_average_witness:
  "(0.5::real) \<le> 2 \<and> tap tex_grey (1 / 2, 1 / 2) (1 / 10, 1 / 10) 2 = (1 / 2, 1 / 2, 1 / 2)"
proof -
  have h: "(0.5::real) \<le> 2" by simp
  show ?thesis using h tap_spiral_average [OF h, of tex_grey "(1 / 2, 1 / 2)" "(1 / 10, 1 / 10)"]
    by (simp add: spiral_average_def tex_grey_def)
qed

section \<open>Uploading the uniforms\<close>

lemma stored_names:
  "stored e act ''width'' = map_option fst act"
  "stored e act ''height'' = map_option snd act"
  "stored e act ''u_ior'' = Some (this_ior e)"
  "stored e act ''u_ca'' = Some (this_ca e)"
  "stored e act ''u_dist'' = Some (this_dist e)"
  "stored e act ''u_cr'' = Some (this_cr e)"
  "stored e act ''u_fres'' = Some (this_fres e)"
  "stored e act ''u_blur'' = Some (this_blur e)"
  "stored e act ''u_tint_r'' = Some (fst (this_tint e))"
  "stored e act ''u_tint_g'' = Some (fst (snd (this_tint e)))"
  "stored e act ''u_tint_b'' = Some (fst (snd (snd (this_tint e))))"
  "stored e act ''u_tint_a'' = Some (snd (snd (snd (this_tint e))))"
  unfolding stored_def by simp_all

lemma size_uploads:
  assumes "(n, v) \<in> set (snd (upload_size e w h))"
  shows "stored e (Some (w, h)) n = Some (v + EPS)"
proof -
  from assms have "(n, v) \<in> set [(''width'', w - EPS), (''height'', h - EPS)]"
    by (cases "w \<noteq> this_lastW e \<or> h \<noteq> this_lastH e") (simp_all add: upload_size_def)
  then have "(n = ''width'' \<and> v = w - EPS) \<or> (n = ''height'' \<and> v = h - EPS)"
    by simp
  then show ?thesis
    by (elim disjE conjE) (simp_all only: stored_names, simp_all)
qed

lemma params_uploads:
  assumes "(n, v) \<in> set (snd (upload_params e))"
  shows "stored e act n = Some (v + EPS)"
proof -
  obtain t0 t1 t2 t3 where t: "this_tint e = (t0, t1, t2, t3)"
    by (cases "this_tint e") auto
  from assms have "(n, v) \<in> set [(''u_ior'', this_ior e - EPS),
               (''u_ca'', this_ca e - EPS),
               (''u_dist'', this_dist e - EPS),
               (''u_cr'', this_cr e - EPS),
               (''u_fres'', this_fres e - EPS),
               (''u_blur'', this_blur e - EPS),
               (''u_tint_r'', t0 - EPS),
               (''u_tint_g'', t1 - EPS),
               (''u_tint_b'', t2 - EPS),
               (''u_tint_a'', t3 - EPS)]"
    by (cases "this_dirty e") (simp_all add: upload_params_def t)
  then have "(n = ''u_ior'' \<and> v = this_ior e - EPS) \<or>
     (n = ''u_ca'' \<and> v = this_ca e - EPS) \<or>
     (n = ''u_dist'' \<and> v = this_dist e - EPS) \<or>
     (n = ''u_cr'' \<and> v = this_cr e - EPS) \<or>
     (n = ''u_fres'' \<and> v = this_fres e - EPS) \<or>
     (n = ''u_blur'' \<and> v = this_blur e - EPS) \<or>
     (n = ''u_tint_r'' \<and> v = t0 - EPS) \<or>
     (n = ''u_tint_g'' \<and> v = t1 - EPS) \<or>
     (n = ''u_tint_b'' \<and> v = t2 - EPS) \<or>
     (n = ''u_tint_a'' \<and> v = t3 - EPS)"
    by simp
  then show ?thesis
    by (elim disjE conjE) (simp_all only: stored_names t, simp_all)
qed

lemma stored_after_size:
  "stored (fst (upload_size e w h)) act n = stored e act n"
  by (simp add: stored_def upload_size_def)

lemma uploads_split:
  assumes "(n, v) \<in> set (uploads e act)"
  shows "\<exists>w h. act = Some (w, h) \<and>
           ((n, v) \<in> set (snd (upload_size e w h)) \<or>
            (n, v) \<in> set (snd (upload_params (fst (upload_size e w h)))))"
proof (cases act)
  case None
  with assms show ?thesis
    by (simp add: uploads_def vfunc_paint_target_def)
next
  case (Some wh)
  obtain w h where wh: "wh = (w, h)"
    by (cases wh) auto
  obtain e1 ups1 where s1: "upload_size e w h = (e1, ups1)"
    by (cases "upload_size e w h") auto
  obtain e2 ups2 where s2: "upload_params e1 = (e2, ups2)"
    by (cases "upload_params e1") auto
  have "uploads e act = (if w \<le> 0 \<or> h \<le> 0 then [] else ups1 @ ups2)"
    by (simp add: uploads_def vfunc_paint_target_def Some wh s1 s2)
  with assms have "(n, v) \<in> set ups1 \<or> (n, v) \<in> set ups2"
    by (cases "w \<le> 0 \<or> h \<le> 0") simp_all
  then show ?thesis
    by (simp add: Some wh s1 s2)
qed

text \<open>
  C10. Every value that \<^verbatim>\<open>vfunc_paint_target\<close> passes to \<^verbatim>\<open>set_uniform_value\<close> is the
  stored value of that uniform minus \<open>1e-6\<close>, hence strictly below the setting.
\<close>

theorem uploads_minus_epsilon:
  assumes "(n, v) \<in> set (uploads e act)"
  shows "\<exists>x. stored e act n = Some x \<and> v = x - 0.000001 \<and> v < x"
proof -
  from uploads_split [OF assms] obtain w h where a: "act = Some (w, h)"
    and m: "(n, v) \<in> set (snd (upload_size e w h)) \<or>
            (n, v) \<in> set (snd (upload_params (fst (upload_size e w h))))"
    by blast
  from m have "stored e act n = Some (v + EPS)"
  proof
    assume "(n, v) \<in> set (snd (upload_size e w h))"
    from size_uploads [OF this] show ?thesis
      by (simp only: a)
  next
    assume "(n, v) \<in> set (snd (upload_params (fst (upload_size e w h))))"
    from params_uploads [OF this, of act] show ?thesis
      by (simp only: stored_after_size)
  qed
  then show ?thesis
    by (simp add: EPS_def)
qed

lemma uploads_e_one:
  "uploads e_one (Some (1920, 32)) =
     [(''width'', 1920 - EPS), (''height'', 32 - EPS),
      (''u_ior'', 1 - EPS), (''u_ca'', 0.008 - EPS), (''u_dist'', 0.8 - EPS),
      (''u_cr'', 12 - EPS), (''u_fres'', 0.25 - EPS), (''u_blur'', 2 - EPS),
      (''u_tint_r'', 0 - EPS), (''u_tint_g'', 1 - EPS), (''u_tint_b'', 1 - EPS),
      (''u_tint_a'', 0.8 - EPS)]"
  by (simp add: uploads_def vfunc_paint_target_def upload_size_def upload_params_def e_one_def)

text \<open>
  A configured \<open>ior\<close> of 1.0 reaches the shader as 0.999999 and a tint channel of 0 as
  \<open>- 1e-6\<close>.
\<close>

theorem uploads_minus_epsilon_witness:
  "(''u_ior'', 0.999999) \<in> set (uploads e_one (Some (1920, 32))) \<and>
   stored e_one (Some (1920, 32)) ''u_ior'' = Some 1 \<and> (0.999999 :: real) < 1 \<and>
   (''u_tint_r'', - 0.000001) \<in> set (uploads e_one (Some (1920, 32))) \<and>
   stored e_one (Some (1920, 32)) ''u_tint_r'' = Some 0 \<and> (- 0.000001 :: real) < 0"
proof -
  have h1: "(''u_ior'', 0.999999) \<in> set (uploads e_one (Some (1920, 32)))"
    unfolding uploads_e_one by (simp add: EPS_def)
  have h2: "(''u_tint_r'', - 0.000001) \<in> set (uploads e_one (Some (1920, 32)))"
    unfolding uploads_e_one by (simp add: EPS_def)
  show ?thesis
    using h1 h2 uploads_minus_epsilon [OF h1] uploads_minus_epsilon [OF h2] by auto
qed

section \<open>The dome and its normal\<close>

lemma dome_hpD_ge: "0.08 \<le> s_hpD (dome p h ir)"
  unfolding dome_def Let_def by (simp only: surface.select_convs max.cobounded2)

lemma length3_ge1: "1 \<le> length3 (a, b, 1)"
proof -
  have "1 \<le> a * a + b * b + 1 * 1" by simp
  then have "sqrt 1 \<le> sqrt (a * a + b * b + 1 * 1)" by (rule real_sqrt_le_mono)
  then show ?thesis by simp
qed

lemma dome_len_ge: "1 \<le> s_len (dome p h ir)"
  unfolding dome_def Let_def by (simp only: surface.select_convs length3_ge1)

lemma normalize3_unit:
  assumes "0 < length3 v"
  shows "dot3 (normalize3 v) (normalize3 v) = 1"
proof -
  obtain a b c where v: "v = (a, b, c)" by (cases v) auto
  define l where "l = length3 (a, b, c)"
  have nn: "0 \<le> a * a + b * b + c * c" by simp
  have sq: "l * l = a * a + b * b + c * c"
    unfolding l_def using nn by simp
  have pos: "l \<noteq> 0" using assms v l_def by simp
  have "dot3 (normalize3 v) (normalize3 v) = a / l * (a / l) + b / l * (b / l) + c / l * (c / l)"
    unfolding v l_def by (simp only: normalize3.simps dot3.simps)
  also have "\<dots> = (a * a + b * b + c * c) / (l * l)"
    by (simp add: add_divide_distrib)
  also have "\<dots> = 1" using pos unfolding sq [symmetric] by simp
  finally show ?thesis .
qed

lemma dome_N_len: "s_N (dome p h ir) = normalize3 (- fst (s_hGrad (dome p h ir)) * 50, - snd (s_hGrad (dome p h ir)) * 50, 1)
   \<and> s_len (dome p h ir) = length3 (- fst (s_hGrad (dome p h ir)) * 50, - snd (s_hGrad (dome p h ir)) * 50, 1)"
  unfolding dome_def Let_def by (simp only: surface.select_convs)

lemma dome_N_unit: "dot3 (s_N (dome p h ir)) (s_N (dome p h ir)) = 1"
proof -
  have "0 < length3 (- fst (s_hGrad (dome p h ir)) * 50, - snd (s_hGrad (dome p h ir)) * 50, 1)"
    using length3_ge1 [of "- fst (s_hGrad (dome p h ir)) * 50" "- snd (s_hGrad (dome p h ir)) * 50"] by linarith
  from normalize3_unit [OF this] show ?thesis
    by (simp only: dome_N_len)
qed


lemma dome_t_eq:
  "s_t (dome p h ir) =
     max (1 - min (\<bar>fst p\<bar> / fst h) 1 * min (\<bar>fst p\<bar> / fst h) 1) 0 *
     max (1 - min (\<bar>snd p\<bar> / snd h) 1 * min (\<bar>snd p\<bar> / snd h) 1) 0"
  unfolding dome_def Let_def by (simp only: surface.select_convs)

lemma dome_ht_eq:
  "s_ht (dome p h ir) =
     sqrt (sqrt (max (1 - (1 - s_t (dome p h ir)) * (1 - s_t (dome p h ir)) *
                        ((1 - s_t (dome p h ir)) * (1 - s_t (dome p h ir)))) 0.000001))"
  unfolding dome_def Let_def by (simp only: surface.select_convs)

lemma dome_hpD_eq:
  "s_hpD (dome p h ir) =
     max (sqrt (max (1 - (1 - s_t (dome p h ir)) * (1 - s_t (dome p h ir)) *
                       ((1 - s_t (dome p h ir)) * (1 - s_t (dome p h ir)))) 0.000001) *
          s_ht (dome p h ir)) 0.08"
  unfolding dome_def Let_def by (simp only: surface.select_convs)

lemma dome_hGrad_eq:
  "s_hGrad (dome p h ir) =
     scale2 (- 2 * fst p * (4 * fst ir * fst ir) *
               max (1 - min (\<bar>snd p\<bar> / snd h) 1 * min (\<bar>snd p\<bar> / snd h) 1) 0,
             - 2 * snd p * (4 * snd ir * snd ir) *
               max (1 - min (\<bar>fst p\<bar> / fst h) 1 * min (\<bar>fst p\<bar> / fst h) 1) 0)
       ((1 - s_t (dome p h ir)) * (1 - s_t (dome p h ir)) * (1 - s_t (dome p h ir)) /
        s_hpD (dome p h ir))"
  unfolding dome_def Let_def by (simp only: surface.select_convs)

lemma sqrt_millionth: "sqrt 0.000001 = 0.001"
  by (rule real_sqrt_unique) (simp_all add: power2_eq_square)

lemma hpD_at_rim: "max (sqrt 0.000001 * sqrt (sqrt 0.000001)) 0.08 = (0.08::real)"
proof -
  define x :: real where "x = sqrt 0.001"
  have "x \<le> 1" unfolding x_def by simp
  then have "0.001 * x \<le> 0.08" by simp
  then show ?thesis unfolding sqrt_millionth x_def by (simp only: max_absorb2)
qed

text \<open>On the left and right rim of the dome (\<open>|p.x| \<ge> hs.x\<close>).\<close>

lemma dome_rim_x:
  assumes "0 < fst h" and "fst h \<le> \<bar>fst p\<bar>"
  shows "s_t (dome p h ir) = 0"
    and "s_hpD (dome p h ir) = 0.08"
    and "s_hGrad (dome p h ir) =
           (- 100 * fst p * (fst ir * fst ir) *
              max (1 - min (\<bar>snd p\<bar> / snd h) 1 * min (\<bar>snd p\<bar> / snd h) 1) 0, 0)"
proof -
  have "1 \<le> \<bar>fst p\<bar> / fst h" using assms by simp
  then have qx: "min (\<bar>fst p\<bar> / fst h) 1 = 1" by simp
  show t: "s_t (dome p h ir) = 0"
    unfolding dome_t_eq qx by simp
  have ht: "s_ht (dome p h ir) = sqrt (sqrt 0.000001)"
    unfolding dome_ht_eq t by simp
  show d: "s_hpD (dome p h ir) = 0.08"
    unfolding dome_hpD_eq t ht using hpD_at_rim by simp
  show "s_hGrad (dome p h ir) =
           (- 100 * fst p * (fst ir * fst ir) *
              max (1 - min (\<bar>snd p\<bar> / snd h) 1 * min (\<bar>snd p\<bar> / snd h) 1) 0, 0)"
    unfolding dome_hGrad_eq t d qx by simp
qed




lemma length3_dot3: "length3 v = sqrt (dot3 v v)"
  by (cases v) auto

lemma dome_ht_pos: "0 < s_ht (dome p h ir)"
proof -
  have "(0::real) < max x 0.000001" for x by simp
  then show ?thesis
    unfolding dome_ht_eq by (simp only: real_sqrt_gt_zero)
qed

lemma unit_components:
  assumes "dot3 v v = 1"
  shows "\<bar>fst v\<bar> \<le> 1 \<and> \<bar>fst (snd v)\<bar> \<le> 1 \<and> \<bar>snd (snd v)\<bar> \<le> 1"
proof -
  obtain a b c where v: "v = (a, b, c)" by (cases v) auto
  from assms have s: "a * a + b * b + c * c = 1" by (simp add: v)
  have nn: "0 \<le> a * a" "0 \<le> b * b" "0 \<le> c * c" by simp_all
  have "a * a \<le> 1" "b * b \<le> 1" "c * c \<le> 1" using s nn by linarith+
  then have "\<bar>a\<bar> \<le> 1" "\<bar>b\<bar> \<le> 1" "\<bar>c\<bar> \<le> 1"
    by (simp_all add: abs_le_square_iff [of _ 1, simplified] power2_eq_square [symmetric])
  then show ?thesis by (simp add: v)
qed

text \<open>
  C3. For positive half extents and \<open>p\<close> within \<open>1.5 * hs\<close> on both axes, every
  division of the estimator has a divisor bounded away from zero (\<open>hs > 0\<close>, the base
  under the square roots is positive, the derivative denominator is at least 0.08 and
  \<^verbatim>\<open>normalize\<close> divides by a length of at least 1), every component of \<open>N\<close> lies in
  \<open>[-1, 1]\<close>, and \<open>N\<close> has length 1, hence within \<open>1e-4\<close> of 1.
\<close>

theorem normal_finite_unit:
  assumes "0 < hx" and "0 < hy" and "\<bar>px\<bar> \<le> 1.5 * hx" and "\<bar>py\<bar> \<le> 1.5 * hy"
  shows "hx \<noteq> 0 \<and> hy \<noteq> 0 \<and>
         0 < s_ht (dome (px, py) (hx, hy) ir) \<and>
         0.08 \<le> s_hpD (dome (px, py) (hx, hy) ir) \<and>
         1 \<le> s_len (dome (px, py) (hx, hy) ir) \<and>
         \<bar>fst (s_N (dome (px, py) (hx, hy) ir))\<bar> \<le> 1 \<and>
         \<bar>fst (snd (s_N (dome (px, py) (hx, hy) ir)))\<bar> \<le> 1 \<and>
         \<bar>snd (snd (s_N (dome (px, py) (hx, hy) ir)))\<bar> \<le> 1 \<and>
         length3 (s_N (dome (px, py) (hx, hy) ir)) = 1 \<and>
         \<bar>length3 (s_N (dome (px, py) (hx, hy) ir)) - 1\<bar> \<le> 0.0001"
proof -
  have l: "length3 (s_N (dome (px, py) (hx, hy) ir)) = 1"
    unfolding length3_dot3 dome_N_unit by simp
  have "hx \<noteq> 0" "hy \<noteq> 0" using assms by simp_all
  then show ?thesis
    using dome_ht_pos dome_hpD_ge dome_len_ge unit_components [OF dome_N_unit]
    by (simp add: l)
qed

text \<open>The corner \<open>p = (600, 300)\<close> of the tested margin around the scenario panel.\<close>

theorem normal_finite_unit_witness:
  "(0::real) < 400 \<and> (0::real) < 200 \<and> \<bar>600::real\<bar> \<le> 1.5 * 400 \<and> \<bar>300::real\<bar> \<le> 1.5 * 200 \<and>
   0.08 \<le> s_hpD (dome (600, 300) (400, 200) (1 / 800, 1 / 400)) \<and>
   1 \<le> s_len (dome (600, 300) (400, 200) (1 / 800, 1 / 400)) \<and>
   length3 (s_N (dome (600, 300) (400, 200) (1 / 800, 1 / 400))) = 1"
proof -
  have h: "(0::real) < 400" "(0::real) < 200" "\<bar>600::real\<bar> \<le> 1.5 * 400" "\<bar>300::real\<bar> \<le> 1.5 * 200"
    by simp_all
  show ?thesis
    using h normal_finite_unit [OF h, of "(1 / 800, 1 / 400)"] by simp
qed

section \<open>Monotonic Fresnel\<close>




















section \<open>Total internal reflection\<close>

lemma rim_tiny:
  "s_N (surf u_tiny (1, 1 / 2)) = normalize3 (1250, 0, 1)"
proof -
  have s: "surf u_tiny (1, 1 / 2) = dome (1, 0) (1, 1) (1 / 2, 1 / 2)"
    by (simp add: surf_def pix_def hs_def invRes_def res_def u_tiny_def)
  have g: "s_hGrad (dome (1, 0) (1, 1) (1 / 2, 1 / 2)) = (- 25, 0)"
    by (subst dome_rim_x(3)) simp_all
  show ?thesis
    unfolding s using dome_N_len [of "(1, 0)" "(1, 1)" "(1 / 2, 1 / 2)"] by (simp add: g)
qed

lemma refract_tir:
  assumes "nz * nz < 1 - 1 / (eta * eta)" and "0 < eta"
  shows "refract Iray (nx, ny, nz) eta = (0, 0, 0)"
proof -
  have e: "0 < eta * eta" using assms(2) by simp
  have "eta * eta * (nz * nz) < eta * eta * (1 - 1 / (eta * eta))"
    using assms(1) e by (rule mult_strict_left_mono)
  also have "\<dots> = eta * eta - 1" using assms(2) by (simp add: right_diff_distrib)
  finally have "1 - eta * eta * (1 - nz * nz) < 0"
    by (simp add: right_diff_distrib)
  then show ?thesis
    by (simp add: refract_def Iray_def Let_def)
qed

lemma tir_tiny:
  "refract Iray (s_N (surf u_tiny (1, 1 / 2))) (1 / u_ior u_tiny) = (0, 0, 0)"
proof -
  define l :: real where "l = sqrt 1562501"
  have ll: "l * l = 1562501" unfolding l_def by simp
  have lp: "0 < l" unfolding l_def by simp
  have n: "s_N (surf u_tiny (1, 1 / 2)) = (1250 / l, 0 / l, 1 / l)"
    unfolding rim_tiny l_def by simp
  have "(1 / l) * (1 / l) = 1 / (l * l)" by simp
  then have z: "(1 / l) * (1 / l) = 1 / 1562501" unfolding ll .
  have eta: "1 / u_ior u_tiny = 1000000 / 999999" by (simp add: u_tiny_def)
  show ?thesis
    unfolding n eta by (rule refract_tir) (simp_all only: z, simp_all)
qed

lemma refract_unit:
  assumes u: "a * a + b * b + c * c = 1" and k: "0 \<le> 1 - eta * eta * (1 - c * c)"
  shows "dot3 (refract Iray (a, b, c) eta) (refract Iray (a, b, c) eta) = 1"
proof -
  define k0 where "k0 = 1 - eta * eta * (1 - c * c)"
  define s where "s = sqrt k0"
  have ss: "s * s = k0" unfolding s_def using k k0_def by simp
  have nk: "\<not> k0 < 0" using k k0_def by simp
  have d: "dot3 (a, b, c) Iray = - c" by (simp add: Iray_def)
  have r: "refract Iray (a, b, c) eta =
      (a * - (eta * - c + s), b * - (eta * - c + s), - eta + c * - (eta * - c + s))"
    unfolding refract_def Let_def d using nk
    by (simp add: k0_def s_def Iray_def)
  have "dot3 (refract Iray (a, b, c) eta) (refract Iray (a, b, c) eta) =
      (a * a + b * b + c * c) * ((s - eta * c) * (s - eta * c)) + 2 * eta * c * (s - eta * c) + eta * eta"
    unfolding r by (simp add: algebra_simps)
  also have "\<dots> = s * s + eta * eta * (1 - c * c)"
    unfolding u by (simp add: algebra_simps)
  also have "\<dots> = 1" unfolding ss k0_def by simp
  finally show ?thesis .
qed

text \<open>
  For \<open>u_ior \<ge> 1\<close> and a unit normal the refraction is defined and of length 1: the
  fallback of line 104 is taken only for \<open>u_ior < 1\<close>.
\<close>

lemma no_tir_above_one:
  assumes "1 \<le> u_ior u" and "dot3 N N = 1"
  shows "rayG u N = refract Iray N (1 / u_ior u)"
proof -
  obtain a b c where N: "N = (a, b, c)" by (cases N) auto
  from assms(2) have u: "a * a + b * b + c * c = 1" by (simp add: N)
  define eta where "eta = 1 / u_ior u"
  have e: "0 \<le> eta" "eta \<le> 1" unfolding eta_def using assms(1) by simp_all
  then have "eta * eta \<le> 1 * 1" by (intro mult_mono) simp_all
  then have ee: "eta * eta \<le> 1" by simp
  have ab: "0 \<le> a * a + b * b" and cc: "0 \<le> c * c" by simp_all
  from u ab have c1: "0 \<le> 1 - c * c" by linarith
  from cc have c2: "1 - c * c \<le> 1" by linarith
  note c = c1 c2
  have "eta * eta * (1 - c * c) \<le> 1 * 1"
    using ee c by (intro mult_mono) simp_all
  then have k: "0 \<le> 1 - eta * eta * (1 - c * c)" by simp
  from refract_unit [OF u k] show ?thesis
    unfolding rayG_def Let_def N eta_def by simp
qed

lemma main_no_tir:
  assumes "1 \<le> u_ior u"
  shows "rayG u (s_N (surf u v_uv)) = refract Iray (s_N (surf u v_uv)) (1 / u_ior u)"
  using assms dome_N_unit unfolding surf_def by (rule no_tir_above_one)

text \<open>
  C4. When the squared length of \<^verbatim>\<open>refract(I, N, 1 / ior)\<close> is below 0.001, the green ray
  is the incident ray \<open>(0, 0, -1)\<close> and the green sampling coordinate is the pixel's own
  coordinate.
\<close>

theorem tir_fallback:
  assumes "dot3 (refract Iray N (1 / u_ior u)) (refract Iray N (1 / u_ior u)) < 0.001"
  shows "rayG u N = Iray \<and> uvG u v_uv N = v_uv"
proof -
  have r: "rayG u N = Iray"
    using assms unfolding rayG_def Let_def by simp
  have "uvG u v_uv N = v_uv"
    unfolding uvG_def r by (cases v_uv; cases "scaleInv u") (simp add: Iray_def)
  with r show ?thesis
    by simp
qed

text \<open>
  On the right rim of a panel of 2 by 2 pixels the normal is \<open>normalize (1250, 0, 1)\<close>;
  with \<open>u_ior = 0.999999\<close> the refraction is undefined there.
\<close>

theorem tir_fallback_witness:
  "dot3 (refract Iray (s_N (surf u_tiny (1, 1 / 2))) (1 / u_ior u_tiny))
        (refract Iray (s_N (surf u_tiny (1, 1 / 2))) (1 / u_ior u_tiny)) < 0.001 \<and>
   rayG u_tiny (s_N (surf u_tiny (1, 1 / 2))) = (0, 0, - 1) \<and>
   uvG u_tiny (1, 1 / 2) (s_N (surf u_tiny (1, 1 / 2))) = (1, 1 / 2)"
proof -
  have h: "dot3 (refract Iray (s_N (surf u_tiny (1, 1 / 2))) (1 / u_ior u_tiny))
        (refract Iray (s_N (surf u_tiny (1, 1 / 2))) (1 / u_ior u_tiny)) < 0.001"
    unfolding tir_tiny by simp
  show ?thesis
    using h tir_fallback [OF h, of "(1, 1 / 2)"] by (simp add: Iray_def)
qed

end
